theory Spec2Isabelle
  imports Complex_Main "HOL-Library.Word" "HOL-Library.Sublist"
begin

section \<open>Python values used by the server\<close>

text \<open>
  A Python \<open>float\<close> is modelled by the real number it denotes, or by \<open>NaN\<close>.
  Rounding of arithmetic results is not modelled: every property below rests on
  comparisons against constants and on clamping. The infinities are not represented;
  no computation on a raster produces one.
\<close>

datatype pyfloat = Finite real | NaN

datatype py_error = OverflowError

text \<open>Python's \<open>a > b\<close> and \<open>a < b\<close> on floats: every comparison with NaN is false.\<close>

fun fgt :: "pyfloat \<Rightarrow> pyfloat \<Rightarrow> bool" where
  "fgt (Finite a) (Finite b) = (b < a)"
| "fgt _ _ = False"

fun flt :: "pyfloat \<Rightarrow> pyfloat \<Rightarrow> bool" where
  "flt (Finite a) (Finite b) = (a < b)"
| "flt _ _ = False"

fun fle :: "pyfloat \<Rightarrow> pyfloat \<Rightarrow> bool" where
  "fle (Finite a) (Finite b) = (a \<le> b)"
| "fle _ _ = False"

text \<open>
  The builtins \<open>min(a, b)\<close> and \<open>max(a, b)\<close> keep the first argument unless the
  second is strictly smaller (larger).
\<close>

definition py_min :: "pyfloat \<Rightarrow> pyfloat \<Rightarrow> pyfloat" where
  "py_min a b = (if flt b a then b else a)"

definition py_max :: "pyfloat \<Rightarrow> pyfloat \<Rightarrow> pyfloat" where
  "py_max a b = (if fgt b a then b else a)"

text \<open>
  Strings are byte strings; \<open>str.lower\<close> and \<open>str.strip\<close> are modelled with their
  ASCII tables (the 26 capital letters; the ten ASCII white-space characters).
\<close>

definition lower_char :: "char \<Rightarrow> char" where
  "lower_char c =
     (case map_of (zip ''ABCDEFGHIJKLMNOPQRSTUVWXYZ'' ''abcdefghijklmnopqrstuvwxyz'') c of
        Some d \<Rightarrow> d
      | None \<Rightarrow> c)"

definition lower :: "string \<Rightarrow> string" where
  "lower s = map lower_char s"

section \<open>Safety calibration (server/app.py)\<close>

record safety_flag =
  code :: string
  message :: string
  severity :: string

record params =
  mn_length_mm :: pyfloat
  spf_prompt :: int

type_synonym calibration = "safety_flag list \<times> params"

definition LOWER_MN :: safety_flag where
  "LOWER_MN =
     \<lparr>code = ''LOWER_MN'',
      message = ''Higher pigmentation index / Fitzpatrick '' @ [CHR 0xE2, CHR 0x80, CHR 0x94]
                @ '' use '' @ [CHR 0xE2, CHR 0x89, CHR 0xA4] @ ''0.2 mm microneedles.'',
      severity = ''caution''\<rparr>"

definition SITE_LIMIT :: safety_flag where
  "SITE_LIMIT =
     \<lparr>code = ''SITE_LIMIT'',
      message = ''Peri-orbital area: keep microneedles '' @ [CHR 0xE2, CHR 0x89, CHR 0xA4]
                @ ''0.2 mm.'',
      severity = ''info''\<rparr>"

definition SPF :: safety_flag where
  "SPF =
     \<lparr>code = ''SPF'',
      message = ''Strict daily SPF recommended to reduce PIH risk.'',
      severity = ''info''\<rparr>"

definition initial_calibration :: calibration where
  "initial_calibration = ([], \<lparr>mn_length_mm = Finite 0.4, spf_prompt = 0\<rparr>)"

text \<open>The three \<open>if\<close> statements of \<open>safety_calibration\<close>, in the order of the source.\<close>

fun pigment_rule :: "pyfloat \<Rightarrow> int \<Rightarrow> calibration \<Rightarrow> calibration" where
  "pigment_rule mi fitz (flags, p) =
     (if fgt mi (Finite 35.0) \<or> 4 \<le> fitz
      then (flags @ [LOWER_MN], p\<lparr>mn_length_mm := Finite 0.2, spf_prompt := 1\<rparr>)
      else (flags, p))"

fun site_rule :: "string \<Rightarrow> calibration \<Rightarrow> calibration" where
  "site_rule site (flags, p) =
     (if lower site \<in> set [''eye'', ''periorbital'']
      then (flags @ [SITE_LIMIT], p\<lparr>mn_length_mm := py_min (mn_length_mm p) (Finite 0.2)\<rparr>)
      else (flags, p))"

fun spf_rule :: "calibration \<Rightarrow> calibration" where
  "spf_rule (flags, p) =
     (if spf_prompt p \<noteq> 0 then (flags @ [SPF], p) else (flags, p))"

definition safety_calibration :: "pyfloat \<Rightarrow> int \<Rightarrow> string \<Rightarrow> calibration" where
  "safety_calibration mi fitz site =
     spf_rule (site_rule site (pigment_rule mi fitz initial_calibration))"

section \<open>Peptide knowledge base and resolver (server/ml/peptide_flags.py)\<close>

text \<open>
  Values stored in the dictionaries the server builds. A dictionary is an association
  list in insertion order with distinct keys, as Python's \<open>dict\<close> keeps it.
\<close>

datatype pyvalue = PNone | PBool bool | PInt int | PFloat pyfloat | PStr string

type_synonym pydict = "(string \<times> pyvalue) list"

text \<open>\<open>d[k] = v\<close>: an existing key keeps its position, a new key goes last.\<close>

fun dict_set :: "'k \<Rightarrow> 'v \<Rightarrow> ('k \<times> 'v) list \<Rightarrow> ('k \<times> 'v) list" where
  "dict_set k v [] = [(k, v)]"
| "dict_set k v ((k', v') # d) = (if k' = k then (k, v) # d else (k', v') # dict_set k v d)"

text \<open>\<open>d.get(k, default)\<close>; \<open>d.get(k)\<close> is \<open>dict_get d k PNone\<close>.\<close>

definition dict_get :: "pydict \<Rightarrow> string \<Rightarrow> pyvalue \<Rightarrow> pyvalue" where
  "dict_get d k dflt = (case map_of d k of Some v \<Rightarrow> v | None \<Rightarrow> dflt)"

text \<open>Truth value of an object in a condition.\<close>

fun truthy :: "pyvalue \<Rightarrow> bool" where
  "truthy PNone = False"
| "truthy (PBool b) = b"
| "truthy (PInt n) = (n \<noteq> 0)"
| "truthy (PFloat x) = (x \<noteq> Finite 0)"
| "truthy (PStr s) = (s \<noteq> [])"

record PeptideInfo =
  name :: string
  lipidated :: bool
  net_charge :: string
  is_skp :: bool
  approx_mw :: int

type_synonym knowledge_base = "(string \<times> PeptideInfo) list"

definition PEPTIDE_KB :: knowledge_base where
  "PEPTIDE_KB =
     [(''palmitoyl-pentapeptide-4'',
         \<lparr>name = ''palmitoyl-pentapeptide-4'', lipidated = True, net_charge = ''neutral'',
          is_skp = False, approx_mw = 802\<rparr>),
      (''ghk-cu'',
         \<lparr>name = ''ghk-cu'', lipidated = False, net_charge = ''positive'',
          is_skp = False, approx_mw = 403\<rparr>),
      (''acetyl-hexapeptide-8'',
         \<lparr>name = ''acetyl-hexapeptide-8'', lipidated = False, net_charge = ''neutral'',
          is_skp = False, approx_mw = 889\<rparr>),
      (''matrixyl-3000'',
         \<lparr>name = ''matrixyl-3000'', lipidated = True, net_charge = ''neutral'',
          is_skp = False, approx_mw = 1000\<rparr>),
      (''td-1'',
         \<lparr>name = ''td-1'', lipidated = False, net_charge = ''neutral'',
          is_skp = True, approx_mw = 1200\<rparr>)]"

text \<open>\<open>s.split(",")\<close>: always at least one piece; the pieces never contain a comma.\<close>

fun split_comma :: "string \<Rightarrow> string list" where
  "split_comma [] = [[]]"
| "split_comma (c # cs) =
     (if c = CHR '','' then [] # split_comma cs
      else (case split_comma cs of
              [] \<Rightarrow> [[c]]
            | w # ws \<Rightarrow> (c # w) # ws))"

definition isspace :: "char \<Rightarrow> bool" where
  "isspace c \<longleftrightarrow>
     c \<in> set [CHR 0x09, CHR 0x0A, CHR 0x0B, CHR 0x0C, CHR 0x0D,
              CHR 0x1C, CHR 0x1D, CHR 0x1E, CHR 0x1F, CHR 0x20]"

definition strip :: "string \<Rightarrow> string" where
  "strip s = rev (dropWhile isspace (rev (dropWhile isspace s)))"

text \<open>The two dictionary literals of \<open>flags_from_list\<close>.\<close>

definition known_flags :: "PeptideInfo \<Rightarrow> pydict" where
  "known_flags info =
     [(''lipidated'', PBool (lipidated info)),
      (''charged'', PBool (net_charge info \<in> set [''positive'', ''negative''])),
      (''net_charge'', PStr (net_charge info)),
      (''is_skp'', PBool (is_skp info)),
      (''over_500_Da'', PBool (500 < approx_mw info)),
      (''approx_mw'', PInt (approx_mw info))]"

definition unknown_flags :: pydict where
  "unknown_flags =
     [(''lipidated'', PBool False),
      (''charged'', PStr ''unknown''),
      (''net_charge'', PStr ''unknown''),
      (''is_skp'', PBool False),
      (''over_500_Da'', PBool True),
      (''approx_mw'', PInt 600)]"

text \<open>
  The body of the \<open>for\<close> loop. A \<open>PeptideInfo\<close> instance is always true in a
  condition (the dataclass defines neither \<open>__bool__\<close> nor \<open>__len__\<close>), so
  \<open>if info\<close> tests whether the key was found.
\<close>

definition resolve_name ::
  "knowledge_base \<Rightarrow> string \<Rightarrow> (string \<times> pydict) list \<Rightarrow> (string \<times> pydict) list" where
  "resolve_name kb raw out =
     (case map_of kb raw of
        Some info \<Rightarrow> dict_set raw (known_flags info) out
      | None \<Rightarrow> dict_set raw unknown_flags out)"

definition parse_names :: "string \<Rightarrow> string list" where
  "parse_names csv_names =
     map (\<lambda>s. lower (strip s)) (filter (\<lambda>s. strip s \<noteq> []) (split_comma csv_names))"

text \<open>
  \<open>flags_from_list\<close> reads the module-level \<open>PEPTIDE_KB\<close>. The global is passed in
  as the state the call starts in and returned as the state it leaves behind.
\<close>

definition flags_from_list ::
  "string \<Rightarrow> knowledge_base \<Rightarrow> (string \<times> pydict) list \<times> knowledge_base" where
  "flags_from_list csv_names kb = (fold (resolve_name kb) (parse_names csv_names) [], kb)"

text \<open>
  The processing as the specification words it: split on commas, trim, lowercase, then
  drop the empty tokens.
\<close>

definition spec_names :: "string \<Rightarrow> string list" where
  "spec_names csv_names =
     filter (\<lambda>n. n \<noteq> []) (map lower (map strip (split_comma csv_names)))"

section \<open>Recommendations (the rule sequence of analyze, server/app.py)\<close>

record recommendation =
  category :: string
  rationale :: string
  parameters :: pydict
  priority :: int

definition any_over500 :: "(string \<times> pydict) list \<Rightarrow> bool" where
  "any_over500 pep_flags =
     list_ex (\<lambda>p. truthy (dict_get p ''over_500_Da'' (PBool True))) (map snd pep_flags)"

definition any_charged :: "(string \<times> pydict) list \<Rightarrow> bool" where
  "any_charged pep_flags =
     list_ex (\<lambda>p. dict_get p ''charged'' PNone = PBool True) (map snd pep_flags)"

definition any_lipidated :: "(string \<times> pydict) list \<Rightarrow> bool" where
  "any_lipidated pep_flags =
     list_ex (\<lambda>p. truthy (dict_get p ''lipidated'' PNone)) (map snd pep_flags)"

definition Microneedle :: "params \<Rightarrow> recommendation" where
  "Microneedle p =
     \<lparr>category = ''Microneedle'',
      rationale = ''Bypass stratum corneum for larger peptides (>500 Da).'',
      parameters = [(''length_mm_suggested'', PFloat (mn_length_mm p)),
                    (''frequency'', PStr ''1x/week'')],
      priority = 1\<rparr>"

definition Iontophoresis :: recommendation where
  "Iontophoresis =
     \<lparr>category = ''Iontophoresis'',
      rationale = ''Drive charged peptides with mild current.'',
      parameters = [(''duration_min'', PInt 15), (''sessions_per_week'', PInt 1)],
      priority = 2\<rparr>"

definition Vesicular_Carrier :: recommendation where
  "Vesicular_Carrier =
     \<lparr>category = ''Vesicular Carrier'',
      rationale = ''Improve partitioning using ethosomes/niosomes/transferosomes.'',
      parameters = [(''daily_use'', PBool True)],
      priority = 3\<rparr>"

definition Hydration_Occlusion :: recommendation where
  "Hydration_Occlusion =
     \<lparr>category = ''Hydration & Occlusion'',
      rationale = ''Increase SC water content to loosen lipid order slightly.'',
      parameters = [(''occlusion_nights_per_week'', PInt 2)],
      priority = 4\<rparr>"

text \<open>
  Lines 92 to 128 of \<open>analyze\<close>: the three aggregates over \<open>pep_flags.values()\<close> and
  the four \<open>if\<close> statements that append to \<open>recs\<close>.
\<close>

definition ranked_recommendations ::
  "(string \<times> pydict) list \<Rightarrow> pyfloat \<Rightarrow> params \<Rightarrow> recommendation list" where
  "ranked_recommendations pep_flags tr p =
     (if any_over500 pep_flags then [Microneedle p] else [])
     @ (if any_charged pep_flags then [Iontophoresis] else [])
     @ (if any_over500 pep_flags \<or> \<not> any_lipidated pep_flags then [Vesicular_Carrier] else [])
     @ (if fgt tr (Finite 8.0) then [Hydration_Occlusion] else [])"

text \<open>
  Lines 88 to 128 of \<open>analyze\<close> for a request whose image metrics have been computed:
  safety calibration, peptide flags, recommendations.
\<close>

definition analyze_decisions ::
  "pyfloat \<Rightarrow> pyfloat \<Rightarrow> int \<Rightarrow> string \<Rightarrow> string
   \<Rightarrow> (string \<times> pydict) list \<times> safety_flag list \<times> recommendation list" where
  "analyze_decisions mi tr fitzpatrick site peptide_list =
     (let (safety_flags, p) = safety_calibration mi fitzpatrick site;
          pep_flags = fst (flags_from_list peptide_list PEPTIDE_KB)
      in (pep_flags, safety_flags, ranked_recommendations pep_flags tr p))"

section \<open>Image metrics (server/app.py)\<close>

text \<open>Float arithmetic: NaN propagates; finite operands give the exact real result.\<close>

fun fadd :: "pyfloat \<Rightarrow> pyfloat \<Rightarrow> pyfloat" where
  "fadd (Finite a) (Finite b) = Finite (a + b)"
| "fadd _ _ = NaN"

fun fsub :: "pyfloat \<Rightarrow> pyfloat \<Rightarrow> pyfloat" where
  "fsub (Finite a) (Finite b) = Finite (a - b)"
| "fsub _ _ = NaN"

fun fmul :: "pyfloat \<Rightarrow> pyfloat \<Rightarrow> pyfloat" where
  "fmul (Finite a) (Finite b) = Finite (a * b)"
| "fmul _ _ = NaN"

text \<open>
  An \<open>int\<close> operand of float arithmetic is converted to a float first. The conversion
  rounds to the nearest double and raises \<open>OverflowError\<close> when that is out of range.
\<close>

definition int_to_float :: "int \<Rightarrow> py_error + pyfloat" where
  "int_to_float n =
     (if \<bar>n\<bar> < 2 ^ 1024 - 2 ^ 970 then Inr (Finite (of_int n)) else Inl OverflowError)"

text \<open>\<open>ndarray.mean()\<close>: NaN for an array with no element.\<close>

definition np_mean :: "real list \<Rightarrow> pyfloat" where
  "np_mean xs = (if xs = [] then NaN else Finite (sum_list xs / real (length xs)))"

text \<open>\<open>np.clip(x, lo, hi)\<close> on a scalar: NaN stays NaN.\<close>

fun np_clip :: "pyfloat \<Rightarrow> real \<Rightarrow> real \<Rightarrow> pyfloat" where
  "np_clip (Finite x) lo hi = Finite (min (max x lo) hi)"
| "np_clip NaN lo hi = NaN"

text \<open>
  A raster is the list of its pixels (the means below do not depend on its shape);
  a sample is an unsigned byte.
\<close>

type_synonym pixel = "8 word \<times> 8 word \<times> 8 word"

type_synonym raster = "pixel list"

text \<open>
  \<open>rgb2lab\<close> belongs to scikit-image. Its lightness channel, one value per pixel, is
  the parameter \<open>lightness\<close>.
\<close>

definition melanin_index_rgb :: "(raster \<Rightarrow> real list) \<Rightarrow> raster \<Rightarrow> pyfloat" where
  "melanin_index_rgb lightness arr =
     np_clip (fsub (Finite 100.0) (np_mean (lightness arr))) 0.0 100.0"

definition erythema_index_rgb :: "raster \<Rightarrow> pyfloat" where
  "erythema_index_rgb arr =
     (let ratio = map (\<lambda>(r, g, b). (real (unat r) + 1.0) / (real (unat g) + 1.0)) arr
      in np_clip (fmul (Finite 100.0) (fsub (np_mean ratio) (Finite 1.0))) 0.0 100.0)"

definition pih_risk_proxy :: "pyfloat \<Rightarrow> pyfloat \<Rightarrow> int \<Rightarrow> py_error + pyfloat" where
  "pih_risk_proxy mi ei fitz =
     (case int_to_float (fitz - 1) of
        Inl e \<Rightarrow> Inl e
      | Inr f \<Rightarrow>
          (let base = fadd (fadd (fmul (Finite 0.4) mi) (fmul (Finite 0.2) ei))
                           (fmul (Finite 10.0) f)
           in Inr (py_max (Finite 0.0) (py_min (Finite 100.0) base))))"

text \<open>
  \<open>round(x, 2)\<close>: to the nearest multiple of 0.01, a tie going to the even one.
\<close>

definition round_half_even :: "real \<Rightarrow> int" where
  "round_half_even y =
     (let f = \<lfloor>y\<rfloor>; d = y - of_int f
      in if d < 1 / 2 then f
         else if 1 / 2 < d then f + 1
         else if even f then f else f + 1)"

fun py_round2 :: "pyfloat \<Rightarrow> pyfloat" where
  "py_round2 (Finite x) = Finite (of_int (round_half_even (x * 100)) / 100)"
| "py_round2 NaN = NaN"

text \<open>
  The three clamped metrics as \<open>analyze\<close> computes and reports them (lines 82, 83, 86
  and the \<open>metrics\<close> entry of the response).
\<close>

record metrics =
  melanin_index :: pyfloat
  erythema_index :: pyfloat
  pih_risk_proxy_0_100 :: pyfloat

definition analyze_metrics ::
  "(raster \<Rightarrow> real list) \<Rightarrow> raster \<Rightarrow> int \<Rightarrow> py_error + metrics" where
  "analyze_metrics lightness arr fitzpatrick =
     (let mi = melanin_index_rgb lightness arr;
          ei = erythema_index_rgb arr
      in case pih_risk_proxy mi ei fitzpatrick of
           Inl e \<Rightarrow> Inl e
         | Inr pih \<Rightarrow>
             Inr \<lparr>melanin_index = py_round2 mi,
                  erythema_index = py_round2 ei,
                  pih_risk_proxy_0_100 = py_round2 pih\<rparr>)"

text \<open>The closed interval from 0 to 100; NaN is outside.\<close>

fun in_0_100 :: "pyfloat \<Rightarrow> bool" where
  "in_0_100 (Finite x) = (0 \<le> x \<and> x \<le> 100)"
| "in_0_100 NaN = False"

section \<open>The resolver on an object heap (server/ml/peptide_flags.py)\<close>

text \<open>
  \<open>flags_from_list\<close> once more, with the identity of the objects it touches made
  explicit. The heap is the list of the objects allocated so far; the address of an
  object is its index. Two kinds of object matter to the function: the dictionary bound
  to the global \<open>PEPTIDE_KB\<close>, which it reads with \<open>get\<close>, and the dictionary it
  creates with \<open>out = {}\<close> and updates in place with \<open>out[raw] = ...\<close>. The
  \<open>PeptideInfo\<close> instances and the records stored under the names are built from
  immutable values and are not updated by the function; they stay values. A step on
  which Python would raise (the address holds no dictionary of the kind the statement
  needs) gives \<open>None\<close>.
\<close>

datatype heap_obj = KnowledgeBase knowledge_base | FlagsDict "(string \<times> pydict) list"

type_synonym heap = "heap_obj list"

definition heap_alloc :: "heap_obj \<Rightarrow> heap \<Rightarrow> nat \<times> heap" where
  "heap_alloc v h = (length h, h @ [v])"

definition heap_read :: "heap \<Rightarrow> nat \<Rightarrow> heap_obj option" where
  "heap_read h a = (if a < length h then Some (h ! a) else None)"

definition heap_write :: "nat \<Rightarrow> heap_obj \<Rightarrow> heap \<Rightarrow> heap" where
  "heap_write a v h = h[a := v]"

text \<open>\<open>PEPTIDE_KB.get(raw)\<close>, the global being the object at \<open>kb_ref\<close>.\<close>

definition kb_get :: "heap \<Rightarrow> nat \<Rightarrow> string \<Rightarrow> PeptideInfo option option" where
  "kb_get h kb_ref raw =
     (case heap_read h kb_ref of
        Some (KnowledgeBase kb) \<Rightarrow> Some (map_of kb raw)
      | _ \<Rightarrow> None)"

text \<open>\<open>out[raw] = v\<close>, the local \<open>out\<close> being the object at \<open>out_ref\<close>.\<close>

definition dict_store :: "nat \<Rightarrow> string \<Rightarrow> pydict \<Rightarrow> heap \<Rightarrow> heap option" where
  "dict_store out_ref raw v h =
     (case heap_read h out_ref of
        Some (FlagsDict d) \<Rightarrow> Some (heap_write out_ref (FlagsDict (dict_set raw v d)) h)
      | _ \<Rightarrow> None)"

text \<open>The body of the \<open>for\<close> loop, and the loop.\<close>

definition resolve_name_heap :: "nat \<Rightarrow> nat \<Rightarrow> string \<Rightarrow> heap \<Rightarrow> heap option" where
  "resolve_name_heap kb_ref out_ref raw h =
     (case kb_get h kb_ref raw of
        None \<Rightarrow> None
      | Some (Some info) \<Rightarrow> dict_store out_ref raw (known_flags info) h
      | Some None \<Rightarrow> dict_store out_ref raw unknown_flags h)"

fun for_names :: "nat \<Rightarrow> nat \<Rightarrow> string list \<Rightarrow> heap \<Rightarrow> heap option" where
  "for_names kb_ref out_ref [] h = Some h"
| "for_names kb_ref out_ref (raw # names) h =
     (case resolve_name_heap kb_ref out_ref raw h of
        None \<Rightarrow> None
      | Some h' \<Rightarrow> for_names kb_ref out_ref names h')"

text \<open>The call: the address of the returned dictionary and the heap it leaves.\<close>

definition flags_from_list_heap :: "nat \<Rightarrow> string \<Rightarrow> heap \<Rightarrow> (nat \<times> heap) option" where
  "flags_from_list_heap kb_ref csv_names h =
     (let (out_ref, h1) = heap_alloc (FlagsDict []) h
      in case for_names kb_ref out_ref (parse_names csv_names) h1 of
           None \<Rightarrow> None
         | Some h2 \<Rightarrow> Some (out_ref, h2))"

section \<open>Auxiliary definitions for the proofs\<close>

text \<open>The record \<open>resolve_name\<close> stores under a name: it depends on the name only.\<close>

definition flags_for :: "knowledge_base \<Rightarrow> string \<Rightarrow> pydict" where
  "flags_for kb raw =
     (case map_of kb raw of Some info \<Rightarrow> known_flags info | None \<Rightarrow> unknown_flags)"

section \<open>Properties of the safety calibration\<close>

lemma pigment_rule_initial:
  "pigment_rule mi fitz initial_calibration =
     (if fgt mi (Finite 35.0) \<or> 4 \<le> fitz
      then ([LOWER_MN], \<lparr>mn_length_mm = Finite 0.2, spf_prompt = 1\<rparr>)
      else ([], \<lparr>mn_length_mm = Finite 0.4, spf_prompt = 0\<rparr>))"
  by (simp add: initial_calibration_def)

text \<open>
  C1. Whatever the melanin index (NaN included), the Fitzpatrick integer and the site
  string, the microneedle ceiling never grows from one rule to the next: it is 0.4 mm
  at the start, each of the three rules leaves it less than or equal to what it was,
  and the value returned is at most 0.4 mm.
\<close>

theorem mn_length_never_increases:
  "(let s0 = initial_calibration;
        s1 = pigment_rule mi fitz s0;
        s2 = site_rule site s1;
        s3 = spf_rule s2
    in mn_length_mm (snd s0) = Finite 0.4
     \<and> fle (mn_length_mm (snd s1)) (mn_length_mm (snd s0))
     \<and> fle (mn_length_mm (snd s2)) (mn_length_mm (snd s1))
     \<and> fle (mn_length_mm (snd s3)) (mn_length_mm (snd s2))
     \<and> safety_calibration mi fitz site = s3
     \<and> fle (mn_length_mm (snd (safety_calibration mi fitz site))) (Finite 0.4))"
  unfolding Let_def safety_calibration_def pigment_rule_initial
  by (simp add: initial_calibration_def py_min_def)

text \<open>
  C4. Melanin index 40.0, Fitzpatrick 2 and site "periorbital": the three flags
  LOWER_MN (caution), SITE_LIMIT (info), SPF (info) in this order, a ceiling of
  0.2 mm and the SPF prompt set.
\<close>

theorem scenario_d:
  "safety_calibration (Finite 40.0) 2 ''periorbital'' =
     ([LOWER_MN, SITE_LIMIT, SPF], \<lparr>mn_length_mm = Finite 0.2, spf_prompt = 1\<rparr>)
   \<and> map (\<lambda>f. (code f, severity f))
         (fst (safety_calibration (Finite 40.0) 2 ''periorbital'')) =
       [(''LOWER_MN'', ''caution''), (''SITE_LIMIT'', ''info''), (''SPF'', ''info'')]"
  by (simp add: safety_calibration_def initial_calibration_def lower_def lower_char_def
      py_min_def LOWER_MN_def SITE_LIMIT_def SPF_def)

text \<open>
  C10. In the flags of every calibration the code SPF occurs exactly when the code
  LOWER_MN occurs, and when both occur the last flag is the SPF flag.
\<close>

theorem spf_iff_lower_mn:
  "(let flags = fst (safety_calibration mi fitz site)
    in (''SPF'' \<in> set (map code flags) \<longleftrightarrow> ''LOWER_MN'' \<in> set (map code flags))
     \<and> (''SPF'' \<in> set (map code flags) \<and> ''LOWER_MN'' \<in> set (map code flags)
          \<longrightarrow> flags \<noteq> [] \<and> last flags = SPF))"
  unfolding Let_def safety_calibration_def pigment_rule_initial
  by (simp add: LOWER_MN_def SITE_LIMIT_def SPF_def)

theorem spf_iff_lower_mn_witness:
  "''SPF'' \<in> set (map code (fst (safety_calibration (Finite 20.0) 5 ''Eye'')))
   \<and> ''LOWER_MN'' \<in> set (map code (fst (safety_calibration (Finite 20.0) 5 ''Eye'')))
   \<and> fst (safety_calibration (Finite 20.0) 5 ''Eye'') \<noteq> []
   \<and> last (fst (safety_calibration (Finite 20.0) 5 ''Eye'')) = SPF"
  using spf_iff_lower_mn [of "Finite 20.0" 5 "''Eye''"]
  by (simp add: safety_calibration_def initial_calibration_def lower_def lower_char_def
      LOWER_MN_def SITE_LIMIT_def SPF_def)

section \<open>Properties of the resolver\<close>

subsection \<open>Dictionary updates\<close>

lemma dict_set_keys:
  "map fst (dict_set k v d) = (if k \<in> fst ` set d then map fst d else map fst d @ [k])"
  by (induction d) force+

lemma map_of_dict_set: "map_of (dict_set k v d) = (map_of d)(k \<mapsto> v)"
  by (induction d) (auto simp: fun_eq_iff)

lemma fold_dict_set_keys:
  "set (map fst (fold (\<lambda>k. dict_set k (f k)) ks d)) = set (map fst d) \<union> set ks"
proof (induction ks arbitrary: d)
  case Nil
  show ?case by simp
next
  case (Cons a ks)
  have "set (map fst (dict_set a (f a) d)) = insert a (set (map fst d))"
    by (auto simp: dict_set_keys)
  with Cons.IH [of "dict_set a (f a) d"] show ?case by auto
qed

lemma fold_dict_set_distinct:
  "distinct (map fst d) \<Longrightarrow> distinct (map fst (fold (\<lambda>k. dict_set k (f k)) ks d))"
  by (induction ks arbitrary: d) (auto simp: dict_set_keys)

lemma fold_dict_set_lookup:
  "k \<in> set ks \<Longrightarrow> map_of (fold (\<lambda>k. dict_set k (f k)) ks d) k = Some (f k)"
proof (induction ks arbitrary: d)
  case Nil
  then show ?case by simp
next
  case (Cons a ks)
  have keep: "map_of (fold (\<lambda>k. dict_set k (f k)) ks e) k = Some (f k)"
    if "map_of e k = Some (f k)" for e
    using that by (induction ks arbitrary: e) (auto simp: map_of_dict_set)
  show ?case
  proof (cases "k \<in> set ks")
    case True
    then show ?thesis using Cons.IH by simp
  next
    case False
    with Cons.prems have "a = k" by simp
    then show ?thesis
      using keep [of "dict_set k (f k) d"] by (simp add: map_of_dict_set)
  qed
qed

lemma resolve_name_dict_set: "resolve_name kb = (\<lambda>raw. dict_set raw (flags_for kb raw))"
  by (auto simp: resolve_name_def flags_for_def fun_eq_iff split: option.splits)

subsection \<open>Names\<close>

lemma lower_eq_Nil: "lower s = [] \<longleftrightarrow> s = []"
  by (simp add: lower_def)

lemma parse_names_spec: "parse_names csv = spec_names csv"
  by (simp add: parse_names_def spec_names_def filter_map comp_def lower_eq_Nil)

lemma pep_flags_xyz:
  "fst (flags_from_list ''xyz-123'' PEPTIDE_KB) = [(''xyz-123'', unknown_flags)]"
  by (simp add: flags_from_list_def parse_names_def strip_def isspace_def lower_def
      lower_char_def resolve_name_def PEPTIDE_KB_def)

lemma pep_flags_empty: "fst (flags_from_list '''' PEPTIDE_KB) = []"
  by (simp add: flags_from_list_def parse_names_def strip_def)

text \<open>
  C8. For every input string (and every content of the knowledge base) the keys of the
  output are distinct, they are exactly the names left after splitting on commas,
  trimming, lowercasing and dropping the empty tokens, and the output has one entry per
  distinct name.
\<close>

theorem resolver_keys:
  "(let out = fst (flags_from_list csv kb)
    in distinct (map fst out)
     \<and> set (map fst out) = set (spec_names csv)
     \<and> length out = card (set (spec_names csv)))"
proof -
  let ?out = "fold (\<lambda>raw. dict_set raw (flags_for kb raw)) (parse_names csv) []"
  have d: "distinct (map fst ?out)"
    by (rule fold_dict_set_distinct) simp
  have s: "set (map fst ?out) = set (spec_names csv)"
    by (simp only: fold_dict_set_keys parse_names_spec) simp
  have "length ?out = length (map fst ?out)" by simp
  also have "\<dots> = card (set (map fst ?out))"
    using d by (simp only: distinct_card)
  finally have "length ?out = card (set (spec_names csv))"
    by (simp only: s)
  with d s show ?thesis
    by (simp add: Let_def flags_from_list_def resolve_name_dict_set)
qed

text \<open>
  C2. Every token of the input whose trimmed, lowercased form is not empty and is not a
  key of the knowledge base is mapped, under that form, to the cautious-default record.
\<close>

theorem unknown_name_gets_cautious_default:
  assumes "s \<in> set (split_comma csv)" and "strip s \<noteq> []"
    and "map_of PEPTIDE_KB (lower (strip s)) = None"
  shows "map_of (fst (flags_from_list csv PEPTIDE_KB)) (lower (strip s)) =
           Some [(''lipidated'', PBool False),
                 (''charged'', PStr ''unknown''),
                 (''net_charge'', PStr ''unknown''),
                 (''is_skp'', PBool False),
                 (''over_500_Da'', PBool True),
                 (''approx_mw'', PInt 600)]"
proof -
  from assms(1,2) have "lower (strip s) \<in> set (parse_names csv)"
    by (auto simp: parse_names_def)
  then have "map_of (fold (\<lambda>raw. dict_set raw (flags_for PEPTIDE_KB raw)) (parse_names csv) [])
               (lower (strip s)) = Some (flags_for PEPTIDE_KB (lower (strip s)))"
    by (rule fold_dict_set_lookup)
  moreover have "flags_for PEPTIDE_KB (lower (strip s)) = unknown_flags"
    using assms(3) by (simp add: flags_for_def)
  ultimately show ?thesis
    by (simp add: flags_from_list_def resolve_name_dict_set unknown_flags_def)
qed

theorem unknown_name_gets_cautious_default_witness:
  "'' xyz-123 '' \<in> set (split_comma ''ghk-cu, xyz-123 '')
   \<and> strip '' xyz-123 '' \<noteq> []
   \<and> map_of PEPTIDE_KB (lower (strip '' xyz-123 '')) = None
   \<and> map_of (fst (flags_from_list ''ghk-cu, xyz-123 '' PEPTIDE_KB)) ''xyz-123'' =
           Some [(''lipidated'', PBool False),
                 (''charged'', PStr ''unknown''),
                 (''net_charge'', PStr ''unknown''),
                 (''is_skp'', PBool False),
                 (''over_500_Da'', PBool True),
                 (''approx_mw'', PInt 600)]"
proof -
  have a: "'' xyz-123 '' \<in> set (split_comma ''ghk-cu, xyz-123 '')"
    by simp
  have st: "strip '' xyz-123 '' = ''xyz-123''"
    by (simp add: strip_def isspace_def)
  have b: "strip '' xyz-123 '' \<noteq> []"
    by (simp add: st)
  have lo: "lower ''xyz-123'' = ''xyz-123''"
    by (simp add: lower_def lower_char_def)
  have c: "map_of PEPTIDE_KB (lower (strip '' xyz-123 '')) = None"
    by (simp add: st lo PEPTIDE_KB_def)
  show ?thesis
    using unknown_name_gets_cautious_default [OF a b c] a b c by (simp add: st lo)
qed

subsection \<open>Calls on the heap\<close>

lemma heap_read_update_same: "a < length h \<Longrightarrow> heap_read (h[a := v]) a = Some v"
  by (simp add: heap_read_def)

lemma heap_read_update_other: "a \<noteq> b \<Longrightarrow> heap_read (h[a := v]) b = heap_read h b"
  by (simp add: heap_read_def)

lemma resolve_name_heap_step:
  assumes "heap_read h kb_ref = Some (KnowledgeBase kb)"
    and "heap_read h out_ref = Some (FlagsDict d)"
  shows "resolve_name_heap kb_ref out_ref raw h =
           Some (h[out_ref := FlagsDict (resolve_name kb raw d)])"
  using assms
  by (simp add: resolve_name_heap_def kb_get_def dict_store_def heap_write_def
      resolve_name_def split: option.splits)

text \<open>
  The loop writes to the object at \<open>out_ref\<close> and to nothing else: by induction on the
  names, with the heap and the dictionary reached so far generalised.
\<close>

lemma for_names_result:
  assumes "heap_read h kb_ref = Some (KnowledgeBase kb)"
    and "heap_read h out_ref = Some (FlagsDict d)"
  shows "for_names kb_ref out_ref names h =
           Some (h[out_ref := FlagsDict (fold (resolve_name kb) names d)])"
  using assms
proof (induction names arbitrary: h d)
  case Nil
  from Nil.prems(2) have "h ! out_ref = FlagsDict d"
    by (simp add: heap_read_def split: if_splits)
  then have "h[out_ref := FlagsDict d] = h"
    using list_update_id [of h out_ref] by simp
  then show ?case by simp
next
  case (Cons raw names)
  let ?h = "h[out_ref := FlagsDict (resolve_name kb raw d)]"
  from Cons.prems have ne: "out_ref \<noteq> kb_ref" by auto
  from Cons.prems(2) have lt: "out_ref < length h"
    by (simp add: heap_read_def split: if_splits)
  have step: "resolve_name_heap kb_ref out_ref raw h = Some ?h"
    using Cons.prems by (rule resolve_name_heap_step)
  have kb': "heap_read ?h kb_ref = Some (KnowledgeBase kb)"
    using ne Cons.prems(1) by (simp add: heap_read_update_other)
  have out': "heap_read ?h out_ref = Some (FlagsDict (resolve_name kb raw d))"
    using lt by (rule heap_read_update_same)
  show ?case
    using Cons.IH [OF kb' out'] step by simp
qed

lemma flags_from_list_heap_result:
  assumes "heap_read h kb_ref = Some (KnowledgeBase kb)"
  shows "flags_from_list_heap kb_ref csv h =
           Some (length h, h @ [FlagsDict (fst (flags_from_list csv kb))])"
proof -
  let ?h1 = "h @ [FlagsDict []]"
  from assms have lt: "kb_ref < length h"
    by (simp add: heap_read_def split: if_splits)
  then have kb1: "heap_read ?h1 kb_ref = Some (KnowledgeBase kb)"
    using assms by (simp add: heap_read_def nth_append)
  have out1: "heap_read ?h1 (length h) = Some (FlagsDict [])"
    by (simp add: heap_read_def)
  show ?thesis
    using for_names_result [OF kb1 out1, of "parse_names csv"]
    by (simp add: flags_from_list_heap_def heap_alloc_def flags_from_list_def)
qed

text \<open>
  C9. In any heap where the global holds a knowledge base, a call returns, and so does
  a second call with the same input string made in the heap the first one left. The
  dictionary the second call returns equals the one the first call returned, which the
  second call has not touched. Each returned dictionary is a new object (its address
  was free before the call), and every object that existed before a call, the knowledge
  base among them, is the same after it.
\<close>

theorem resolver_deterministic:
  assumes "heap_read h kb_ref = Some (KnowledgeBase kb)"
  shows "\<exists>out1 h1 out2 h2.
           flags_from_list_heap kb_ref csv h = Some (out1, h1)
         \<and> flags_from_list_heap kb_ref csv h1 = Some (out2, h2)
         \<and> heap_read h1 out1 = Some (FlagsDict (fst (flags_from_list csv kb)))
         \<and> heap_read h2 out2 = heap_read h1 out1
         \<and> heap_read h2 out1 = heap_read h1 out1
         \<and> heap_read h out1 = None
         \<and> heap_read h1 out2 = None
         \<and> take (length h) h1 = h
         \<and> take (length h1) h2 = h1
         \<and> heap_read h1 kb_ref = Some (KnowledgeBase kb)
         \<and> heap_read h2 kb_ref = Some (KnowledgeBase kb)"
proof -
  let ?d = "FlagsDict (fst (flags_from_list csv kb))"
  let ?h1 = "h @ [?d]"
  let ?h2 = "?h1 @ [?d]"
  from assms have lt: "kb_ref < length h"
    by (simp add: heap_read_def split: if_splits)
  have c1: "flags_from_list_heap kb_ref csv h = Some (length h, ?h1)"
    using assms by (rule flags_from_list_heap_result)
  have kb1: "heap_read ?h1 kb_ref = Some (KnowledgeBase kb)"
    using assms lt by (simp add: heap_read_def nth_append)
  have c2: "flags_from_list_heap kb_ref csv ?h1 = Some (length ?h1, ?h2)"
    using kb1 by (rule flags_from_list_heap_result)
  have kb2: "heap_read ?h2 kb_ref = Some (KnowledgeBase kb)"
    using assms lt by (simp add: heap_read_def nth_append)
  have r1: "heap_read ?h1 (length h) = Some ?d"
    by (simp add: heap_read_def)
  have r2: "heap_read ?h2 (length ?h1) = heap_read ?h1 (length h)"
    by (simp add: heap_read_def nth_append)
  have r3: "heap_read ?h2 (length h) = heap_read ?h1 (length h)"
    by (simp add: heap_read_def nth_append)
  have f1: "heap_read h (length h) = None" "heap_read ?h1 (length ?h1) = None"
    by (simp_all add: heap_read_def)
  have t: "take (length h) ?h1 = h" "take (length ?h1) ?h2 = ?h1"
    by simp_all
  show ?thesis
    using c1 c2 r1 r2 r3 f1 t kb1 kb2 by blast
qed

theorem resolver_deterministic_witness:
  "heap_read [KnowledgeBase PEPTIDE_KB] 0 = Some (KnowledgeBase PEPTIDE_KB)
   \<and> flags_from_list_heap 0 ''td-1, Foo,TD-1'' [KnowledgeBase PEPTIDE_KB] =
       Some (1, [KnowledgeBase PEPTIDE_KB,
                 FlagsDict
                   [(''td-1'',
                       [(''lipidated'', PBool False), (''charged'', PBool False),
                        (''net_charge'', PStr ''neutral''), (''is_skp'', PBool True),
                        (''over_500_Da'', PBool True), (''approx_mw'', PInt 1200)]),
                    (''foo'',
                       [(''lipidated'', PBool False), (''charged'', PStr ''unknown''),
                        (''net_charge'', PStr ''unknown''), (''is_skp'', PBool False),
                        (''over_500_Da'', PBool True), (''approx_mw'', PInt 600)])]])
   \<and> (\<exists>out1 h1 out2 h2.
           flags_from_list_heap 0 ''td-1, Foo,TD-1'' [KnowledgeBase PEPTIDE_KB] = Some (out1, h1)
         \<and> flags_from_list_heap 0 ''td-1, Foo,TD-1'' h1 = Some (out2, h2)
         \<and> heap_read h1 out1 =
             Some (FlagsDict (fst (flags_from_list ''td-1, Foo,TD-1'' PEPTIDE_KB)))
         \<and> heap_read h2 out2 = heap_read h1 out1
         \<and> heap_read h2 out1 = heap_read h1 out1
         \<and> heap_read [KnowledgeBase PEPTIDE_KB] out1 = None
         \<and> heap_read h1 out2 = None
         \<and> take (length [KnowledgeBase PEPTIDE_KB]) h1 = [KnowledgeBase PEPTIDE_KB]
         \<and> take (length h1) h2 = h1
         \<and> heap_read h1 0 = Some (KnowledgeBase PEPTIDE_KB)
         \<and> heap_read h2 0 = Some (KnowledgeBase PEPTIDE_KB))"
proof -
  have a: "heap_read [KnowledgeBase PEPTIDE_KB] 0 = Some (KnowledgeBase PEPTIDE_KB)"
    by (simp add: heap_read_def)
  have b: "fst (flags_from_list ''td-1, Foo,TD-1'' PEPTIDE_KB) =
             [(''td-1'',
                 [(''lipidated'', PBool False), (''charged'', PBool False),
                  (''net_charge'', PStr ''neutral''), (''is_skp'', PBool True),
                  (''over_500_Da'', PBool True), (''approx_mw'', PInt 1200)]),
              (''foo'',
                 [(''lipidated'', PBool False), (''charged'', PStr ''unknown''),
                  (''net_charge'', PStr ''unknown''), (''is_skp'', PBool False),
                  (''over_500_Da'', PBool True), (''approx_mw'', PInt 600)])]"
    by (simp add: flags_from_list_def parse_names_def strip_def isspace_def lower_def
        lower_char_def resolve_name_def PEPTIDE_KB_def known_flags_def unknown_flags_def)
  have c: "flags_from_list_heap 0 ''td-1, Foo,TD-1'' [KnowledgeBase PEPTIDE_KB] =
       Some (1, [KnowledgeBase PEPTIDE_KB,
                 FlagsDict (fst (flags_from_list ''td-1, Foo,TD-1'' PEPTIDE_KB))])"
    using flags_from_list_heap_result [OF a, of "''td-1, Foo,TD-1''"] by simp
  have d: "\<exists>out1 h1 out2 h2.
           flags_from_list_heap 0 ''td-1, Foo,TD-1'' [KnowledgeBase PEPTIDE_KB] = Some (out1, h1)
         \<and> flags_from_list_heap 0 ''td-1, Foo,TD-1'' h1 = Some (out2, h2)
         \<and> heap_read h1 out1 =
             Some (FlagsDict (fst (flags_from_list ''td-1, Foo,TD-1'' PEPTIDE_KB)))
         \<and> heap_read h2 out2 = heap_read h1 out1
         \<and> heap_read h2 out1 = heap_read h1 out1
         \<and> heap_read [KnowledgeBase PEPTIDE_KB] out1 = None
         \<and> heap_read h1 out2 = None
         \<and> take (length [KnowledgeBase PEPTIDE_KB]) h1 = [KnowledgeBase PEPTIDE_KB]
         \<and> take (length h1) h2 = h1
         \<and> heap_read h1 0 = Some (KnowledgeBase PEPTIDE_KB)
         \<and> heap_read h2 0 = Some (KnowledgeBase PEPTIDE_KB)"
    using resolver_deterministic [OF a, of "''td-1, Foo,TD-1''"] .
  from c have c': "flags_from_list_heap 0 ''td-1, Foo,TD-1'' [KnowledgeBase PEPTIDE_KB] =
       Some (1, [KnowledgeBase PEPTIDE_KB,
                 FlagsDict
                   [(''td-1'',
                       [(''lipidated'', PBool False), (''charged'', PBool False),
                        (''net_charge'', PStr ''neutral''), (''is_skp'', PBool True),
                        (''over_500_Da'', PBool True), (''approx_mw'', PInt 1200)]),
                    (''foo'',
                       [(''lipidated'', PBool False), (''charged'', PStr ''unknown''),
                        (''net_charge'', PStr ''unknown''), (''is_skp'', PBool False),
                        (''over_500_Da'', PBool True), (''approx_mw'', PInt 600)])]])"
    by (simp only: b)
  from a c' d show ?thesis by (intro conjI)
qed

section \<open>Properties of the recommendations\<close>

lemma analyze_decisions_recs:
  "snd (snd (analyze_decisions mi tr fitz site peptide_list)) =
     ranked_recommendations (fst (flags_from_list peptide_list PEPTIDE_KB)) tr
       (snd (safety_calibration mi fitz site))"
  by (simp add: analyze_decisions_def split_def Let_def)

text \<open>
  C3. For the peptide list "xyz-123" the only record is the cautious default; the
  over-500 aggregate is true and the charged aggregate is false, so the categories
  emitted are Microneedle and Vesicular Carrier (followed by Hydration and Occlusion
  when the roughness exceeds 8.0) and never Iontophoresis.
\<close>

theorem scenario_e:
  "(let pep_flags = fst (flags_from_list ''xyz-123'' PEPTIDE_KB);
        recs = snd (snd (analyze_decisions mi tr fitz site ''xyz-123''))
    in pep_flags = [(''xyz-123'', unknown_flags)]
     \<and> any_over500 pep_flags = True
     \<and> any_charged pep_flags = False
     \<and> map category recs =
         [''Microneedle'', ''Vesicular Carrier'']
         @ (if fgt tr (Finite 8.0) then [''Hydration & Occlusion''] else [])
     \<and> ''Iontophoresis'' \<notin> set (map category recs))"
  by (simp add: Let_def analyze_decisions_recs pep_flags_xyz ranked_recommendations_def
      any_over500_def any_charged_def any_lipidated_def unknown_flags_def dict_get_def
      Microneedle_def Vesicular_Carrier_def Hydration_Occlusion_def)

text \<open>
  C5. For the empty peptide list the three aggregates are false, and with roughness 9.0
  the recommendations are exactly Vesicular Carrier (priority 3) followed by
  Hydration and Occlusion (priority 4), whatever the other inputs.
\<close>

theorem scenario_c:
  "(let pep_flags = fst (flags_from_list '''' PEPTIDE_KB)
    in pep_flags = []
     \<and> any_over500 pep_flags = False
     \<and> any_charged pep_flags = False
     \<and> any_lipidated pep_flags = False
     \<and> snd (snd (analyze_decisions mi (Finite 9.0) fitz site '''')) =
         [Vesicular_Carrier, Hydration_Occlusion]
     \<and> map (\<lambda>r. (category r, priority r)) [Vesicular_Carrier, Hydration_Occlusion] =
         [(''Vesicular Carrier'', 3), (''Hydration & Occlusion'', 4)])"
  by (simp add: Let_def analyze_decisions_recs pep_flags_empty ranked_recommendations_def
      any_over500_def any_charged_def any_lipidated_def
      Vesicular_Carrier_def Hydration_Occlusion_def)

text \<open>
  C6. For every dictionary of peptide flags, every roughness and every safety
  parameters, the priorities of the recommendations are strictly increasing along the
  list; the (category, priority) pairs form a subsequence of the fixed table, so each
  category has its fixed priority and occurs at most once.
\<close>

theorem recommendation_priorities_increasing:
  "sorted_wrt (<) (map priority (ranked_recommendations pep_flags tr p))
   \<and> subseq (map (\<lambda>r. (category r, priority r)) (ranked_recommendations pep_flags tr p))
        [(''Microneedle'', 1), (''Iontophoresis'', 2),
         (''Vesicular Carrier'', 3), (''Hydration & Occlusion'', 4)]"
  by (simp add: ranked_recommendations_def Microneedle_def Iontophoresis_def
      Vesicular_Carrier_def Hydration_Occlusion_def)

section \<open>Properties of the image metrics\<close>

lemma np_mean_finite: "xs \<noteq> [] \<Longrightarrow> \<exists>m. np_mean xs = Finite m"
  by (simp add: np_mean_def)

lemma melanin_in_range:
  assumes "lightness arr \<noteq> []"
  shows "in_0_100 (melanin_index_rgb lightness arr)"
proof -
  from assms obtain m where "np_mean (lightness arr) = Finite m"
    using np_mean_finite by blast
  then show ?thesis by (simp add: melanin_index_rgb_def)
qed

lemma erythema_in_range:
  assumes "arr \<noteq> []"
  shows "in_0_100 (erythema_index_rgb arr)"
proof -
  let ?ratio = "map (\<lambda>(r, g, b). (real (unat r) + 1.0) / (real (unat g) + 1.0)) arr"
  from assms have "?ratio \<noteq> []" by simp
  then obtain m where "np_mean ?ratio = Finite m"
    using np_mean_finite by blast
  then show ?thesis by (simp add: erythema_index_rgb_def Let_def)
qed

lemma clamp_in_range: "in_0_100 (py_max (Finite 0.0) (py_min (Finite 100.0) base))"
  by (cases base) (auto simp: py_min_def py_max_def)

lemma pih_in_range:
  assumes "\<bar>fitz - 1\<bar> < 2 ^ 1024 - 2 ^ 970"
  shows "\<exists>pih. pih_risk_proxy mi ei fitz = Inr pih \<and> in_0_100 pih"
proof -
  let ?base = "fadd (fadd (fmul (Finite 0.4) mi) (fmul (Finite 0.2) ei))
                 (fmul (Finite 10.0) (Finite (of_int (fitz - 1))))"
  from assms have "int_to_float (fitz - 1) = Inr (Finite (of_int (fitz - 1)))"
    by (simp only: int_to_float_def if_True)
  then have "pih_risk_proxy mi ei fitz =
               Inr (py_max (Finite 0.0) (py_min (Finite 100.0) ?base))"
    by (simp only: pih_risk_proxy_def Let_def sum.case)
  then show ?thesis
    using clamp_in_range [of ?base] by blast
qed

lemma round_half_even_lower: "0 \<le> y \<Longrightarrow> 0 \<le> round_half_even y"
  by (simp add: round_half_even_def Let_def)

lemma round_half_even_upper: "y \<le> of_int N \<Longrightarrow> round_half_even y \<le> N"
  unfolding round_half_even_def Let_def
  by (auto simp: floor_le_iff le_floor_iff)

lemma py_round2_in_range: "in_0_100 x \<Longrightarrow> in_0_100 (py_round2 x)"
proof (cases x)
  case (Finite r)
  assume "in_0_100 x"
  with Finite have r: "0 \<le> r" "r \<le> 100" by simp_all
  from r have "0 \<le> round_half_even (r * 100)"
    by (intro round_half_even_lower) simp
  moreover from r have "round_half_even (r * 100) \<le> 10000"
    by (intro round_half_even_upper) simp
  ultimately show ?thesis using Finite by simp
next
  case NaN
  assume "in_0_100 x"
  with NaN show ?thesis by simp
qed

text \<open>
  C7, as the code has it. For a raster with at least one pixel, a lightness channel
  with one value per pixel, and a Fitzpatrick integer \<open>fitz\<close> such that \<open>fitz - 1\<close>
  converts to a float (in-range or not), the melanin index and the erythema index lie in
  [0, 100]; the PIH risk proxy of any two floats (NaN included) lies in [0, 100]; and
  the three values reported after rounding to two decimals lie in [0, 100].
\<close>

theorem metrics_in_range:
  assumes "arr \<noteq> []" and "length (lightness arr) = length arr"
    and "\<bar>fitz - 1\<bar> < 2 ^ 1024 - 2 ^ 970"
  shows "in_0_100 (melanin_index_rgb lightness arr)
       \<and> in_0_100 (erythema_index_rgb arr)
       \<and> (\<exists>pih. pih_risk_proxy mi ei fitz = Inr pih \<and> in_0_100 pih)
       \<and> (\<exists>m. analyze_metrics lightness arr fitz = Inr m
              \<and> in_0_100 (melanin_index m)
              \<and> in_0_100 (erythema_index m)
              \<and> in_0_100 (pih_risk_proxy_0_100 m))"
proof -
  from assms(1,2) have "lightness arr \<noteq> []" by auto
  then have mi: "in_0_100 (melanin_index_rgb lightness arr)"
    by (rule melanin_in_range)
  have ei: "in_0_100 (erythema_index_rgb arr)"
    using assms(1) by (rule erythema_in_range)
  have pih: "\<exists>pih. pih_risk_proxy a b fitz = Inr pih \<and> in_0_100 pih" for a b
    using assms(3) by (rule pih_in_range)
  obtain v where v:
    "pih_risk_proxy (melanin_index_rgb lightness arr) (erythema_index_rgb arr) fitz = Inr v"
    "in_0_100 v"
    using pih by blast
  have "\<exists>m. analyze_metrics lightness arr fitz = Inr m
              \<and> in_0_100 (melanin_index m)
              \<and> in_0_100 (erythema_index m)
              \<and> in_0_100 (pih_risk_proxy_0_100 m)"
    using v mi ei by (simp add: analyze_metrics_def Let_def py_round2_in_range)
  with mi ei pih show ?thesis by blast
qed

theorem metrics_in_range_witness:
  "[(200, 150, 120), (90, 60, 50)] \<noteq> ([] :: raster)
   \<and> length (map (\<lambda>_. 62.5 :: real) [(200, 150, 120), (90, 60, 50) :: pixel])
       = length [(200, 150, 120), (90, 60, 50) :: pixel]
   \<and> \<bar>(9::int) - 1\<bar> < 2 ^ 1024 - 2 ^ 970
   \<and> in_0_100 (melanin_index_rgb (map (\<lambda>_. 62.5)) [(200, 150, 120), (90, 60, 50)])
   \<and> in_0_100 (erythema_index_rgb [(200, 150, 120), (90, 60, 50)])
   \<and> (\<exists>pih. pih_risk_proxy (Finite 37.5) NaN 9 = Inr pih \<and> in_0_100 pih)
   \<and> (\<exists>m. analyze_metrics (map (\<lambda>_. 62.5)) [(200, 150, 120), (90, 60, 50)] 9 = Inr m
          \<and> in_0_100 (melanin_index m)
          \<and> in_0_100 (erythema_index m)
          \<and> in_0_100 (pih_risk_proxy_0_100 m))"
proof -
  have a: "[(200, 150, 120), (90, 60, 50)] \<noteq> ([] :: raster)"
    by simp
  have b: "length (map (\<lambda>_. 62.5 :: real) [(200, 150, 120), (90, 60, 50) :: pixel])
             = length [(200, 150, 120), (90, 60, 50) :: pixel]"
    by simp
  have c: "\<bar>(9::int) - 1\<bar> < 2 ^ 1024 - 2 ^ 970"
    by simp
  show ?thesis
    using metrics_in_range [of "[(200, 150, 120), (90, 60, 50)]" "map (\<lambda>_. 62.5)" 9
        "Finite 37.5" NaN, OF a b c] a c
    by simp
qed

text \<open>
  Where the claim as worded fails: with Fitzpatrick \<open>2 ^ 1024\<close> the conversion of
  \<open>fitz - 1\<close> to a float raises \<open>OverflowError\<close>, so no PIH risk proxy is reported;
  and the erythema index of a raster without pixels is NaN.
\<close>

theorem metrics_range_counterexample:
  "analyze_metrics (map (\<lambda>_. 62.5)) [(200, 150, 120)] (2 ^ 1024) = Inl OverflowError
   \<and> pih_risk_proxy (Finite 37.5) (Finite 0.0) (2 ^ 1024) = Inl OverflowError
   \<and> erythema_index_rgb [] = NaN
   \<and> \<not> in_0_100 (erythema_index_rgb [])"
  by (simp add: analyze_metrics_def pih_risk_proxy_def int_to_float_def
      erythema_index_rgb_def np_mean_def)

end
